theory Spec2Isabelle
  imports Main
begin

section \<open>Errors\<close>

text \<open>
  Every exception the modelled code can raise is a value of one datatype. A function
  that can raise returns \<open>error + 'a\<close>, the error on the left.
\<close>

datatype error =
    AssertionError
  | AttributeError
  | TypeError
  | IndexError
  | KeyError
  | NotImplementedError
  | TaskHasNoOutput
  | TaskHasNoUniqueOutput
  | AssignFinishedTask nat
  | InvalidUnfinishedInputs int nat
  | AlreadyRegisteredWorker nat
  | UnknownMessageType

section \<open>Tasks and data objects (schedsim/common/task.py)\<close>

text \<open>
  \<open>Task\<close> and \<open>TaskOutput\<close> objects refer to each other (an output knows its parent and
  its consumers, a task its inputs and outputs), and the code compares them by identity.
  They live in a store: a reference is an index into the list of allocated objects.
  Durations and sizes are Python numbers; only their sign is ever inspected, and they are
  integers here. An \<open>id\<close> is \<open>None\<close> until a graph assigns it.
\<close>

type_synonym tref = nat
type_synonym oref = nat

record task =
  inputs :: "oref list"
  outputs :: "oref list"
  duration :: int
  expected_duration :: "int option"
  name :: "string option"
  task_id :: "nat option"
  cpus :: int

record task_output =
  parent :: "tref option"
  output_id :: "nat option"
  size_o :: int
  consumers :: "tref list"
  expected_size :: "int option"

text \<open>
  \<open>Task.output\<close>:
  \<^verbatim>\<open>
    outputs = self.outputs
    if not outputs: raise Exception("Task {} has no output", self)
    if len(outputs) > 1: raise Exception("Task {} has no unique output", self)
    return outputs[0]
  \<close>
  The property reads one field and assigns nothing, so it is a function of the task.
\<close>

definition output_t :: "task \<Rightarrow> error + oref" where
  "output_t t =
     (if outputs t = [] then Inl TaskHasNoOutput
      else if length (outputs t) > 1 then Inl TaskHasNoUniqueOutput
      else Inr (outputs t ! 0))"

text \<open>
  The store of allocated tasks and outputs. A Python set is kept as a list without
  repetitions, in order of first insertion; the order in which Python iterates over a
  set is not fixed by the language, and no result below depends on it.
\<close>

record heap =
  tasks_h :: "task list"
  outputs_h :: "task_output list"

text \<open>\<open>s.add(x)\<close> on such a set.\<close>

definition set_add :: "'a \<Rightarrow> 'a list \<Rightarrow> 'a list" where
  "set_add x xs = (if x \<in> set xs then xs else xs @ [x])"

text \<open>
  Reading a task or an output through a reference. In Python a reference always denotes
  an object; a reference outside the store denotes no object, and where a loop of the
  source would follow it, the model follows nothing.
\<close>

definition task_of :: "heap \<Rightarrow> tref \<Rightarrow> task" where
  "task_of h t = tasks_h h ! t"

definition out_of :: "heap \<Rightarrow> oref \<Rightarrow> task_output" where
  "out_of h o' = outputs_h h ! o'"

text \<open>
  \<open>Task.normalize\<close>:
  \<^verbatim>\<open>
    inputs = list(set(self.inputs))
    inputs.sort(key=lambda o: o.id)
    self.inputs = inputs
  \<close>
  \<open>list(set(xs))\<close> lists the distinct elements of \<open>xs\<close> in an order the language does not
  fix; it is the parameter \<open>set_order\<close>, of which only \<open>set_iteration\<close> is known. The sort
  is stable. It compares the ids with \<open><\<close>, which raises \<open>TypeError\<close> when an id is \<open>None\<close>;
  a list of fewer than two elements is sorted without a comparison. The assignment to
  \<open>self.inputs\<close> is the only mutation, and it is not reached when the sort raises.
\<close>

definition set_iteration :: "('a list \<Rightarrow> 'a list) \<Rightarrow> bool" where
  "set_iteration set_order = (\<forall>xs. distinct (set_order xs) \<and> set (set_order xs) = set xs)"

definition sort_key_of :: "heap \<Rightarrow> oref \<Rightarrow> nat" where
  "sort_key_of h o' = the (output_id (out_of h o'))"

definition normalize :: "(oref list \<Rightarrow> oref list) \<Rightarrow> heap \<Rightarrow> tref \<Rightarrow> error + heap" where
  "normalize set_order h t =
     (let xs = set_order (inputs (task_of h t))
      in if length xs \<ge> 2 \<and> (\<exists>o' \<in> set xs. output_id (out_of h o') = None) then Inl TypeError
         else Inr (h\<lparr>tasks_h := (tasks_h h)[t := (task_of h t)\<lparr>inputs := sort_key (sort_key_of h) xs\<rparr>]\<rparr>))"


























text \<open>
  \<open>Task.add_input\<close> for an argument that is a \<open>TaskOutput\<close>:
  \<^verbatim>\<open>
    self.inputs.append(output)
    output.consumers.add(self)
  \<close>
\<close>

definition add_input :: "heap \<Rightarrow> tref \<Rightarrow> oref \<Rightarrow> heap" where
  "add_input h self out =
     h\<lparr>tasks_h := (tasks_h h)[self := (task_of h self)\<lparr>inputs := inputs (task_of h self) @ [out]\<rparr>],
       outputs_h := (outputs_h h)[out := (out_of h out)\<lparr>consumers :=
                      set_add self (consumers (out_of h out))\<rparr>]\<rparr>"














definition offset :: "heap \<Rightarrow> tref list \<Rightarrow> nat \<Rightarrow> nat" where
  "offset h rs i = length (concat (map (\<lambda>t. outputs (task_of h t)) (take i rs)))"








subsection \<open>Concrete tasks for \<open>normalize\<close>\<close>

text \<open>
  Three tasks that are in no graph, so that no id is assigned: task 0 reads the outputs
  of tasks 1 and 2.
  \<^verbatim>\<open>
    a = Task(output_size=1); b = Task(output_size=1)
    t = Task(); t.add_input(a); t.add_input(b)
  \<close>
  Then a registered graph in which task 1 lists the outputs 1, 0, 1 of task 0 as its
  inputs, and the same graph with the inputs of task 1 normalized. Last, a task that
  reads two different objects carrying the same id.
\<close>

definition unregistered_inputs_heap :: heap where
  "unregistered_inputs_heap =
     \<lparr>tasks_h = [\<lparr>inputs = [0, 1], outputs = [], duration = 1, expected_duration = None,
                  name = None, task_id = None, cpus = 1\<rparr>,
                \<lparr>inputs = [], outputs = [0], duration = 1, expected_duration = None,
                  name = None, task_id = None, cpus = 1\<rparr>,
                \<lparr>inputs = [], outputs = [1], duration = 1, expected_duration = None,
                  name = None, task_id = None, cpus = 1\<rparr>],
      outputs_h = [\<lparr>parent = Some 1, output_id = None, size_o = 1, consumers = [0],
                    expected_size = Some 1\<rparr>,
                  \<lparr>parent = Some 2, output_id = None, size_o = 1, consumers = [0],
                    expected_size = Some 1\<rparr>]\<rparr>"

definition unsorted_inputs_heap :: heap where
  "unsorted_inputs_heap =
     \<lparr>tasks_h = [\<lparr>inputs = [], outputs = [0, 1], duration = 1, expected_duration = None,
                  name = None, task_id = Some 0, cpus = 1\<rparr>,
                \<lparr>inputs = [1, 0, 1], outputs = [], duration = 1, expected_duration = None,
                  name = None, task_id = Some 1, cpus = 1\<rparr>],
      outputs_h = [\<lparr>parent = Some 0, output_id = Some 0, size_o = 1, consumers = [1],
                    expected_size = Some 1\<rparr>,
                  \<lparr>parent = Some 0, output_id = Some 1, size_o = 1, consumers = [1],
                    expected_size = Some 1\<rparr>]\<rparr>"

definition sorted_inputs_heap :: heap where
  "sorted_inputs_heap =
     \<lparr>tasks_h = [\<lparr>inputs = [], outputs = [0, 1], duration = 1, expected_duration = None,
                  name = None, task_id = Some 0, cpus = 1\<rparr>,
                \<lparr>inputs = [0, 1], outputs = [], duration = 1, expected_duration = None,
                  name = None, task_id = Some 1, cpus = 1\<rparr>],
      outputs_h = [\<lparr>parent = Some 0, output_id = Some 0, size_o = 1, consumers = [1],
                    expected_size = Some 1\<rparr>,
                  \<lparr>parent = Some 0, output_id = Some 1, size_o = 1, consumers = [1],
                    expected_size = Some 1\<rparr>]\<rparr>"

definition equal_ids_heap :: heap where
  "equal_ids_heap =
     \<lparr>tasks_h = [\<lparr>inputs = [], outputs = [0, 1], duration = 1, expected_duration = None,
                  name = None, task_id = Some 0, cpus = 1\<rparr>,
                \<lparr>inputs = [0, 1], outputs = [], duration = 1, expected_duration = None,
                  name = None, task_id = Some 1, cpus = 1\<rparr>],
      outputs_h = [\<lparr>parent = Some 0, output_id = Some 1, size_o = 1, consumers = [1],
                    expected_size = Some 1\<rparr>,
                  \<lparr>parent = Some 0, output_id = Some 1, size_o = 1, consumers = [1],
                    expected_size = Some 1\<rparr>]\<rparr>"

subsection \<open>Concrete graphs for \<open>validate\<close>\<close>













section \<open>The simulator (schedtk/simulator.py)\<close>

text \<open>
  \<^verbatim>\<open>
  class TaskState(Enum):
      Waiting = 1
      Ready = 2
      Assigned = 3
      Finished = 4
  \<close>
\<close>

datatype TaskState = Waiting | Ready | Assigned | Finished

record TaskRuntimeInfo =
  state :: TaskState
  assign_time :: "int option"
  end_time :: "int option"
  assigned_workers :: "nat list"
  unfinished_inputs :: int

text \<open>
  Modelled from the spec: the class \<open>Task\<close> of the package \<open>schedtk\<close>, on whose objects the
  simulator works, is not among these sources. (It is not the class \<open>Task\<close> of
  \<open>schedsim.common.task\<close>: that one has \<open>__slots__\<close> without \<open>info\<close>, so that \<open>run\<close> could not
  store the runtime record, and its \<open>consumers\<close> is a method, over which
  \<open>on_task_finished\<close> could not iterate.) The simulator reads three attributes of a task:
  \<open>inputs\<close>, of which it takes the length, \<open>consumers\<close>, over which it iterates, and
  \<open>info\<close>, which \<open>run\<close> sets; of the graph it reads \<open>tasks\<close> and \<open>task_count\<close>.

  In the data model of the specification the inputs of a task are an ordered list of
  references to data objects, every data object is produced by exactly one parent task,
  and the consumers of a data object are the set of the tasks that read it. So the
  graph is given by its task list, the input list of every task and the parent of every
  object, and \<open>task.consumers\<close> is the set of the tasks of the graph that read an object
  produced by \<open>task\<close>, every such task once. The runtime record \<open>info\<close> of a task is kept
  in the simulator state.
\<close>

record sim_graph =
  graph_tasks :: "tref list"
  task_inputs :: "tref \<Rightarrow> oref list"
  object_parent :: "oref \<Rightarrow> tref option"

definition task_consumers :: "sim_graph \<Rightarrow> tref \<Rightarrow> tref list" where
  "task_consumers g t =
     filter (\<lambda>c. \<exists>o' \<in> set (task_inputs g c). object_parent g o' = Some t)
       (remdups (graph_tasks g))"

text \<open>\<open>TaskRuntimeInfo.__init__(task)\<close>; the task is given by the length of its \<open>inputs\<close>.\<close>

definition TaskRuntimeInfo_init :: "nat \<Rightarrow> TaskRuntimeInfo" where
  "TaskRuntimeInfo_init n =
     \<lparr>state = Waiting, assign_time = None, end_time = None, assigned_workers = [],
      unfinished_inputs = int n\<rparr>"

text \<open>
  The four state queries. \<open>is_running\<close> is \<^verbatim>\<open>return self.state == TaskState.Running\<close>;
  the enumeration has no member \<open>Running\<close>, so evaluating \<^verbatim>\<open>TaskState.Running\<close> raises
  \<open>AttributeError\<close> before any comparison is made.
\<close>

definition is_running :: "TaskRuntimeInfo \<Rightarrow> error + bool" where
  "is_running i = Inl AttributeError"

definition is_ready :: "TaskRuntimeInfo \<Rightarrow> error + bool" where
  "is_ready i = Inr (state i = Ready)"

definition is_finished :: "TaskRuntimeInfo \<Rightarrow> error + bool" where
  "is_finished i = Inr (state i = Finished)"

definition is_waiting :: "TaskRuntimeInfo \<Rightarrow> error + bool" where
  "is_waiting i = Inr (state i = Waiting)"

text \<open>
  The simulator state. A task carries its runtime record in the attribute \<open>info\<close>, set by
  \<open>run\<close>; reading it on a task that has none raises \<open>AttributeError\<close>. Workers are objects
  of a class that is not part of these sources: the worker store is a function from
  worker references to worker values of any type \<open>'w\<close>, and \<open>Worker.assign_task\<close> is a
  parameter \<open>assign_task\<close> that may change the worker or raise. \<open>wakeup_event\<close> is \<open>None\<close>
  or an event with its \<open>triggered\<close> flag.

  A call that raises leaves the mutations made before the raise in place: the result of
  a call is either \<open>Inr s'\<close> or \<open>Inl (e, s')\<close>, with \<open>s'\<close> the state when \<open>e\<close> was raised.
\<close>

record 'w simulator =
  workers :: "nat \<Rightarrow> 'w"
  info :: "tref \<Rightarrow> TaskRuntimeInfo option"
  new_finished :: "tref list"
  new_ready :: "tref list"
  wakeup_event :: "bool option"
  unprocessed_tasks :: int

type_synonym 'w result = "(error \<times> 'w simulator) + 'w simulator"

text \<open>
  The body of the loop of \<open>Simulator.schedule\<close>, for one pair returned by the scheduler:
  \<^verbatim>\<open>
    info = task.info
    if info.state == TaskState.Finished:
        raise Exception("Scheduler tries to assign a finished task ({})".format(task))
    info.state = TaskState.Assigned
    info.assigned_workers.append(worker)
    worker.assign_task(task)
  \<close>
\<close>

definition schedule_one ::
  "(tref \<Rightarrow> 'w \<Rightarrow> error + 'w) \<Rightarrow> 'w simulator \<Rightarrow> nat \<times> tref \<Rightarrow> 'w result" where
  "schedule_one assign_task s a =
     (case a of (worker, t) \<Rightarrow>
        (case info s t of
           None \<Rightarrow> Inl (AttributeError, s)
         | Some i \<Rightarrow>
             if state i = Finished then Inl (AssignFinishedTask t, s)
             else
               let s1 = s\<lparr>info := (info s)(t \<mapsto>
                          i\<lparr>state := Assigned,
                            assigned_workers := assigned_workers i @ [worker]\<rparr>)\<rparr>
               in (case assign_task t (workers s1 worker) of
                     Inl e \<Rightarrow> Inl (e, s1)
                   | Inr w' \<Rightarrow> Inr (s1\<lparr>workers := (workers s1)(worker := w')\<rparr>))))"

text \<open>
  \<open>Simulator.schedule\<close>: the loop over the list the scheduler returned. The scheduler is
  external; its answer is the argument.
\<close>

fun schedule ::
  "(tref \<Rightarrow> 'w \<Rightarrow> error + 'w) \<Rightarrow> 'w simulator \<Rightarrow> (nat \<times> tref) list \<Rightarrow> 'w result" where
  "schedule assign_task s [] = Inr s"
| "schedule assign_task s (a # as) =
     (case schedule_one assign_task s a of
        Inl x \<Rightarrow> Inl x
      | Inr s' \<Rightarrow> schedule assign_task s' as)"

text \<open>
  The loop over the consumers in \<open>Simulator.on_task_finished\<close>:
  \<^verbatim>\<open>
    for t in task.consumers:
        t_info = t.info
        t_info.unfinished_inputs -= 1
        if t_info.unfinished_inputs <= 0:
            if t_info.unfinished_inputs < 0:
                raise Exception("Invalid number of unfinished inputs: ...")
            assert t_info.unfinished_inputs == 0
            assert t_info.state == TaskState.Waiting
            t_info.state = TaskState.Ready
            self.new_ready.append(t)
  \<close>
\<close>

fun notify_consumers :: "'w simulator \<Rightarrow> tref list \<Rightarrow> 'w result" where
  "notify_consumers s [] = Inr s"
| "notify_consumers s (c # cs) =
     (case info s c of
        None \<Rightarrow> Inl (AttributeError, s)
      | Some ci \<Rightarrow>
          let n = unfinished_inputs ci - 1;
              ci1 = ci\<lparr>unfinished_inputs := n\<rparr>;
              s1 = s\<lparr>info := (info s)(c \<mapsto> ci1)\<rparr>
          in if n \<le> 0 then
               if n < 0 then Inl (InvalidUnfinishedInputs n c, s1)
               else if state ci1 \<noteq> Waiting then Inl (AssertionError, s1)
               else notify_consumers
                      (s1\<lparr>info := (info s1)(c \<mapsto> ci1\<lparr>state := Ready\<rparr>),
                          new_ready := new_ready s1 @ [c]\<rparr>) cs
             else notify_consumers s1 cs)"

text \<open>
  \<open>Simulator.on_task_finished(worker, task)\<close>. The loop runs over \<open>task.consumers\<close>
  (\<open>task_consumers\<close> above). The method ends with
  \<^verbatim>\<open>
    if not self.wakeup_event.triggered:
        self.wakeup_event.succeed()
  \<close>
\<close>

definition on_task_finished :: "sim_graph \<Rightarrow> 'w simulator \<Rightarrow> nat \<Rightarrow> tref \<Rightarrow> 'w result" where
  "on_task_finished h s worker t =
     (case info s t of
        None \<Rightarrow> Inl (AttributeError, s)
      | Some i \<Rightarrow>
          if state i \<noteq> Assigned then Inl (AssertionError, s)
          else if worker \<notin> set (assigned_workers i) then Inl (AssertionError, s)
          else
            let s1 = s\<lparr>info := (info s)(t \<mapsto> i\<lparr>state := Finished\<rparr>),
                       new_finished := new_finished s @ [t],
                       unprocessed_tasks := unprocessed_tasks s - 1\<rparr>
            in (case notify_consumers s1 (task_consumers h t) of
                  Inl x \<Rightarrow> Inl x
                | Inr s2 \<Rightarrow>
                    (case wakeup_event s2 of
                       None \<Rightarrow> Inl (AttributeError, s2)
                     | Some triggered \<Rightarrow> Inr (s2\<lparr>wakeup_event := Some True\<rparr>))))"

text \<open>
  The start of \<open>Simulator.run\<close>: every task of the graph gets a fresh runtime record and
  \<open>unprocessed_tasks\<close> is the number of tasks.
  \<^verbatim>\<open>
    for task in self.task_graph.tasks:
        task.info = TaskRuntimeInfo(task)
    self.unprocessed_tasks = self.task_graph.task_count
  \<close>
\<close>

definition run_init :: "sim_graph \<Rightarrow> 'w simulator \<Rightarrow> 'w simulator" where
  "run_init h s =
     s\<lparr>info := fold (\<lambda>t m. m(t \<mapsto> TaskRuntimeInfo_init (length (task_inputs h t))))
                (graph_tasks h) (info s),
       unprocessed_tasks := int (length (graph_tasks h))\<rparr>"

text \<open>
  After \<open>run_init\<close> the simulation is a sequence of calls of \<open>schedule\<close> (by the master
  process) and of \<open>on_task_finished\<close> (by the workers), in an order decided by the event
  library. A run is any such sequence; it stops at the first call that raises.
\<close>

datatype event = Schedule "(nat \<times> tref) list" | TaskFinished nat tref

fun step ::
  "(tref \<Rightarrow> 'w \<Rightarrow> error + 'w) \<Rightarrow> sim_graph \<Rightarrow> 'w simulator \<Rightarrow> event \<Rightarrow> 'w result" where
  "step assign_task h s (Schedule as) = schedule assign_task s as"
| "step assign_task h s (TaskFinished worker t) = on_task_finished h s worker t"

fun run_events ::
  "(tref \<Rightarrow> 'w \<Rightarrow> error + 'w) \<Rightarrow> sim_graph \<Rightarrow> 'w simulator \<Rightarrow> event list \<Rightarrow> 'w result" where
  "run_events assign_task h s [] = Inr s"
| "run_events assign_task h s (e # es) =
     (case step assign_task h s e of
        Inl x \<Rightarrow> Inl x
      | Inr s' \<Rightarrow> run_events assign_task h s' es)"

text \<open>The state in which a call ended, whether it returned or raised.\<close>

definition final :: "'w result \<Rightarrow> 'w simulator" where
  "final r = (case r of Inl (e, s) \<Rightarrow> s | Inr s \<Rightarrow> s)"

text \<open>The \<open>assigned_workers\<close> list of a task (empty for a task without runtime record).\<close>

definition workers_of :: "'w simulator \<Rightarrow> tref \<Rightarrow> nat list" where
  "workers_of s t = (case info s t of None \<Rightarrow> [] | Some i \<Rightarrow> assigned_workers i)"

text \<open>
  The quantity the data model of the specification relates \<open>unfinished_inputs\<close> to: the
  number of input objects of a task whose parent task is not \<open>Finished\<close>.
\<close>

definition task_finished :: "'w simulator \<Rightarrow> tref \<Rightarrow> bool" where
  "task_finished s t = (case info s t of None \<Rightarrow> False | Some i \<Rightarrow> state i = Finished)"

definition inputs_with_unfinished_parent :: "sim_graph \<Rightarrow> 'w simulator \<Rightarrow> tref \<Rightarrow> int" where
  "inputs_with_unfinished_parent h s t =
     int (length (filter (\<lambda>o'. case object_parent h o' of
                                 None \<Rightarrow> True
                               | Some p \<Rightarrow> \<not> task_finished s p)
                    (task_inputs h t)))"

subsection \<open>Concrete simulator inputs\<close>

text \<open>
  A worker whose \<open>assign_task\<close> appends the task to a queue and never raises, and a
  simulator before \<open>run\<close>, with an untriggered wake-up event.
\<close>

definition queue_assign_task :: "tref \<Rightarrow> tref list \<Rightarrow> error + tref list" where
  "queue_assign_task t q = Inr (q @ [t])"

definition empty_simulator :: "tref list simulator" where
  "empty_simulator =
     \<lparr>workers = (\<lambda>w. []), info = Map.empty, new_finished = [], new_ready = [],
      wakeup_event = Some False, unprocessed_tasks = 0\<rparr>"

text \<open>A graph of one task of duration 0, without inputs and outputs.\<close>

definition single_task :: sim_graph where
  "single_task =
     \<lparr>graph_tasks = [0], task_inputs = (\<lambda>t. []), object_parent = (\<lambda>o'. None)\<rparr>"

text \<open>
  A graph of two tasks: task 0 produces the objects 0 and 1, and task 1 reads both.
  The run on that graph: \<open>run\<close> initialises the records, the scheduler assigns task 0 to
  worker 0, and worker 0 reports task 0 finished.
\<close>

definition two_inputs :: sim_graph where
  "two_inputs =
     \<lparr>graph_tasks = [0, 1],
      task_inputs = (\<lambda>t. if t = 1 then [0, 1] else []),
      object_parent = [0 \<mapsto> 0, 1 \<mapsto> 0]\<rparr>"

definition two_inputs_run :: "tref list result" where
  "two_inputs_run =
     run_events queue_assign_task two_inputs (run_init two_inputs empty_simulator)
       [Schedule [(0, 0)], TaskFinished 0 0]"

text \<open>
  A simulator state with a finished task 0 (run by worker 3) and a ready task 1, the
  state after task 1 is assigned to worker 5, and the state after it is assigned again,
  to worker 2.
\<close>

definition finished_info :: TaskRuntimeInfo where
  "finished_info =
     \<lparr>state = Finished, assign_time = None, end_time = None,
      assigned_workers = [3], unfinished_inputs = 0\<rparr>"

definition finished_sim :: "tref list simulator" where
  "finished_sim =
     \<lparr>workers = (\<lambda>w. []),
      info = [0 \<mapsto> finished_info,
              1 \<mapsto> \<lparr>state = Ready, assign_time = None, end_time = None,
                    assigned_workers = [], unfinished_inputs = 0\<rparr>],
      new_finished = [], new_ready = [], wakeup_event = Some False, unprocessed_tasks = 1\<rparr>"

definition assigned_sim :: "tref list simulator" where
  "assigned_sim =
     finished_sim\<lparr>info := (info finished_sim)(1 \<mapsto>
                     \<lparr>state = Assigned, assign_time = None, end_time = None,
                      assigned_workers = [5], unfinished_inputs = 0\<rparr>),
                  workers := (workers finished_sim)(5 := [1])\<rparr>"

definition reassigned_sim :: "tref list simulator" where
  "reassigned_sim =
     finished_sim\<lparr>info := (info finished_sim)(1 \<mapsto>
                     \<lparr>state = Assigned, assign_time = None, end_time = None,
                      assigned_workers = [5, 2], unfinished_inputs = 0\<rparr>),
                  workers := (workers finished_sim)(5 := [1], 2 := [1])\<rparr>"

section \<open>The scheduler side (estee/schedulers/scheduler.py)\<close>

text \<open>
  The scheduler keeps its own mirror of workers, tasks and objects in three dictionaries
  keyed by id, and the messages refer to every entity by id. The mirror objects refer to
  each other; here a reference to a mirror entity is its id, looked up in the
  dictionary. (The two agree as long as an id denotes one object: every statement below
  about \<open>_process_update\<close> is about one message on an empty mirror, or about a second
  message whose entities the first one has created afresh.)

  A Python set is a list without repetitions, extended at the end (\<open>set_add\<close>).
\<close>

text \<open>\<^verbatim>\<open>class SchedulerWorker: worker_id, cpus\<close>\<close>

record SchedulerWorker =
  worker_id :: nat
  cpus_w :: int

text \<open>
  Modelled from the spec: the classes \<open>SchedulerTask\<close> and \<open>SchedulerDataObject\<close> (module
  \<open>estee.schedulers.tasks\<close>) are not part of these sources. The mirror holds, per task,
  \<open>inputs\<close>, \<open>outputs\<close>, \<open>expected_duration\<close>, \<open>cpus\<close>, \<open>state\<close>, \<open>scheduled_worker\<close>,
  \<open>computed_by\<close> and the counter \<open>unfinished_inputs\<close> (from \<open>len(inputs)\<close> to zero), and
  per object \<open>expected_size\<close>, \<open>size\<close>, \<open>parent\<close>, \<open>consumers\<close>, \<open>placing\<close>,
  \<open>availability\<close> and \<open>scheduled\<close>. A new task is \<open>Waiting\<close> with no worker; a new object
  has no parent and empty sets. A member of \<open>scheduled\<close> is a worker or \<open>None\<close>
  (\<open>assign\<close> accepts \<open>None\<close> as the worker).
\<close>

record SchedulerTask =
  st_id :: nat
  st_inputs :: "nat list"
  st_outputs :: "nat list"
  st_expected_duration :: "int option"
  st_cpus :: int
  st_state :: TaskState
  scheduled_worker :: "nat option"
  computed_by :: "nat option"
  st_unfinished_inputs :: int

record SchedulerDataObject =
  do_id :: nat
  do_expected_size :: "int option"
  do_size :: "int option"
  do_parent :: "nat option"
  do_consumers :: "nat list"
  placing :: "nat list"
  availability :: "nat list"
  scheduled :: "nat option list"

definition SchedulerTask_init ::
  "nat \<Rightarrow> nat list \<Rightarrow> nat list \<Rightarrow> int option \<Rightarrow> int \<Rightarrow> SchedulerTask" where
  "SchedulerTask_init i ins outs ed c =
     \<lparr>st_id = i, st_inputs = ins, st_outputs = outs, st_expected_duration = ed, st_cpus = c,
      st_state = Waiting, scheduled_worker = None, computed_by = None,
      st_unfinished_inputs = int (length ins)\<rparr>"

definition SchedulerDataObject_init :: "nat \<Rightarrow> int option \<Rightarrow> int option \<Rightarrow> SchedulerDataObject" where
  "SchedulerDataObject_init i es sz =
     \<lparr>do_id = i, do_expected_size = es, do_size = sz, do_parent = None, do_consumers = [],
      placing = [], availability = [], scheduled = []\<rparr>"

text \<open>
  One reply record of \<open>assign\<close>:
  \<^verbatim>\<open>
    result = {"worker": worker.worker_id if worker else None, "task": task.id}
    if priority is not None: result["priority"] = priority
    if blocking is not None: result["blocking"] = blocking
  \<close>
\<close>

record assignment =
  a_worker :: "nat option"
  a_task :: nat
  a_priority :: "int option"
  a_blocking :: "int option"

text \<open>
  \<open>SchedulerBase\<close>. \<open>assignments\<close> is \<open>None\<close> or a dictionary from tasks to reply records;
  a Python dictionary keeps its keys in the order of their first insertion, and
  assigning to a key that is present replaces the value in place.
\<close>

record scheduler =
  sched_workers :: "nat \<Rightarrow> SchedulerWorker option"
  sched_tasks :: "nat \<Rightarrow> SchedulerTask option"
  sched_objects :: "nat \<Rightarrow> SchedulerDataObject option"
  network_bandwidth :: "int option"
  assignments :: "(nat \<times> assignment) list option"
  reassigning :: bool

definition SchedulerBase_init :: "bool \<Rightarrow> scheduler" where
  "SchedulerBase_init r =
     \<lparr>sched_workers = Map.empty, sched_tasks = Map.empty, sched_objects = Map.empty,
      network_bandwidth = None, assignments = None, reassigning = r\<rparr>"

fun dict_set :: "'k \<Rightarrow> 'v \<Rightarrow> ('k \<times> 'v) list \<Rightarrow> ('k \<times> 'v) list" where
  "dict_set k v [] = [(k, v)]"
| "dict_set k v (p # ps) = (if fst p = k then (k, v) # ps else p # dict_set k v ps)"

text \<open>Applying a mutation to the object with a given id.\<close>

definition on_object ::
  "(SchedulerDataObject \<Rightarrow> SchedulerDataObject) \<Rightarrow> nat \<Rightarrow> scheduler \<Rightarrow> scheduler" where
  "on_object f k s =
     (case sched_objects s k of
        None \<Rightarrow> s
      | Some ob \<Rightarrow> s\<lparr>sched_objects := (sched_objects s)(k \<mapsto> f ob)\<rparr>)"

text \<open>
  \<open>SchedulerBase.assign\<close>:
  \<^verbatim>\<open>
    task.state = TaskState.Assigned
    task.scheduled_worker = worker
    for o in task.inputs:
        o.scheduled.add(worker)
    for o in task.outputs:
        o.scheduled.add(worker)
    result = {...}
    self.assignments[task] = result
  \<close>
  The task is given by its id, as a scheduler obtains it from \<open>self.task_graph.tasks\<close>
  (\<open>KeyError\<close> for an unknown id); storing into \<open>self.assignments\<close> while it is \<open>None\<close>
  raises \<open>TypeError\<close>.
\<close>

definition assign ::
  "nat option \<Rightarrow> nat \<Rightarrow> int option \<Rightarrow> int option \<Rightarrow> scheduler \<Rightarrow> error + scheduler" where
  "assign worker t priority blocking s =
     (case sched_tasks s t of
        None \<Rightarrow> Inl KeyError
      | Some task \<Rightarrow>
          let s1 = s\<lparr>sched_tasks := (sched_tasks s)(t \<mapsto>
                     task\<lparr>st_state := Assigned, scheduled_worker := worker\<rparr>)\<rparr>;
              add = (\<lambda>ob. ob\<lparr>scheduled := set_add worker (scheduled ob)\<rparr>);
              s2 = fold (on_object add) (st_inputs task) s1;
              s3 = fold (on_object add) (st_outputs task) s2;
              result = \<lparr>a_worker = worker, a_task = st_id task,
                        a_priority = priority, a_blocking = blocking\<rparr>
          in (case assignments s3 of
                None \<Rightarrow> Inl TypeError
              | Some d \<Rightarrow> Inr (s3\<lparr>assignments := Some (dict_set t result d)\<rparr>)))"

text \<open>A scheduling policy that is a fixed sequence of \<open>assign\<close> calls.\<close>

fun assign_all ::
  "(nat option \<times> nat \<times> int option \<times> int option) list \<Rightarrow> scheduler \<Rightarrow> error + scheduler" where
  "assign_all [] s = Inr s"
| "assign_all ((w, t, p, b) # as) s =
     (case assign w t p b s of Inl e \<Rightarrow> Inl e | Inr s' \<Rightarrow> assign_all as s')"

text \<open>The fields of an update message; an absent list is the empty list.\<close>

record worker_msg =
  wm_id :: nat
  wm_cpus :: int

record object_msg =
  om_id :: nat
  om_expected_size :: "int option"
  om_size :: "int option"

record task_msg =
  tm_id :: nat
  tm_inputs :: "nat list"
  tm_outputs :: "nat list"
  tm_expected_duration :: "int option"
  tm_cpus :: int

record task_update =
  tu_id :: nat
  tu_state :: TaskState
  tu_worker :: nat

record object_update =
  ou_id :: nat
  ou_placing :: "nat list"
  ou_availability :: "nat list"
  ou_size :: "int option"

record message =
  msg_type :: string
  new_workers :: "worker_msg list"
  msg_network_bandwidth :: "int option"
  new_objects :: "object_msg list"
  new_tasks :: "task_msg list"
  tasks_update :: "task_update list"
  objects_update :: "object_update list"

text \<open>\<^verbatim>\<open>class Update\<close>, the argument of \<open>schedule\<close>; entities are given by id.\<close>

record Update =
  u_new_workers :: "nat list"
  u_network_update :: bool
  u_new_objects :: "nat list"
  u_new_tasks :: "nat list"
  u_new_ready_tasks :: "nat list"
  u_new_finished_tasks :: "nat list"

text \<open>
  The parts of \<open>_process_update\<close>, in the order of the source: for every loop, its body
  for one element and the loop over the list, which stops at the first raise.
  \<^verbatim>\<open>
    for w in message["new_workers"]:
        worker_id = w["id"]
        if worker_id in workers:
            raise Exception("Registering already registered worker '{}'".format(worker_id))
        worker = SchedulerWorker(worker_id, w["cpus"])
        new_workers.append(worker)
        workers[worker_id] = worker
  \<close>
\<close>

definition register_worker :: "worker_msg \<Rightarrow> scheduler \<Rightarrow> error + scheduler" where
  "register_worker w s =
     (if sched_workers s (wm_id w) \<noteq> None then Inl (AlreadyRegisteredWorker (wm_id w))
      else Inr (s\<lparr>sched_workers := (sched_workers s)(wm_id w \<mapsto>
                   \<lparr>worker_id = wm_id w, cpus_w = wm_cpus w\<rparr>)\<rparr>))"

fun register_workers :: "worker_msg list \<Rightarrow> scheduler \<Rightarrow> error + scheduler" where
  "register_workers [] s = Inr s"
| "register_workers (w # ws) s =
     (case register_worker w s of Inl e \<Rightarrow> Inl e | Inr s' \<Rightarrow> register_workers ws s')"

text \<open>
  \<^verbatim>\<open>
    network_update = False
    if "network_bandwidth" in message:
        bandwidth = message["network_bandwidth"]
        if bandwidth != self.network_bandwidth:
            network_update = True
            self.network_bandwidth = bandwidth
  \<close>
\<close>

definition update_bandwidth :: "int option \<Rightarrow> scheduler \<Rightarrow> scheduler \<times> bool" where
  "update_bandwidth b s =
     (case b of
        None \<Rightarrow> (s, False)
      | Some bw \<Rightarrow>
          if Some bw \<noteq> network_bandwidth s then (s\<lparr>network_bandwidth := Some bw\<rparr>, True)
          else (s, False))"

text \<open>
  \<^verbatim>\<open>
    for o in message["new_objects"]:
        object_id = o["id"]
        obj = SchedulerDataObject(object_id, o["expected_size"], o.get("size"))
        new_objects.append(obj)
        objects[object_id] = obj
  \<close>
\<close>

definition add_object :: "object_msg \<Rightarrow> scheduler \<Rightarrow> scheduler" where
  "add_object ob s =
     s\<lparr>sched_objects := (sched_objects s)(om_id ob \<mapsto>
          SchedulerDataObject_init (om_id ob) (om_expected_size ob) (om_size ob))\<rparr>"

fun add_objects :: "object_msg list \<Rightarrow> scheduler \<Rightarrow> scheduler" where
  "add_objects [] s = s"
| "add_objects (ob # obs) s = add_objects obs (add_object ob s)"

text \<open>
  \<^verbatim>\<open>
    for t in message["new_tasks"]:
        task_id = t["id"]
        inputs = [objects[o] for o in t["inputs"]]
        outputs = [objects[o] for o in t["outputs"]]
        task = SchedulerTask(task_id, inputs, outputs, t["expected_duration"], t["cpus"])
        new_tasks.append(task)
        for o in outputs:
            o.parent = task
        for o in inputs:
            o.consumers.add(task)
        if task.unfinished_inputs == 0:
            ready_tasks.append(task)
        tasks[task_id] = task
  \<close>
  The two list comprehensions raise \<open>KeyError\<close> when an id is not a key of \<open>objects\<close>
  (\<open>missing_objects\<close>); \<open>link_task\<close> is the two loops over the outputs and the inputs. The
  second component of the state is \<open>ready_tasks\<close>.
\<close>

definition missing_objects :: "nat list \<Rightarrow> scheduler \<Rightarrow> bool" where
  "missing_objects ks s = (\<exists>k \<in> set ks. sched_objects s k = None)"

definition link_task :: "task_msg \<Rightarrow> scheduler \<Rightarrow> scheduler" where
  "link_task t s =
     fold (on_object (\<lambda>ob. ob\<lparr>do_consumers := set_add (tm_id t) (do_consumers ob)\<rparr>))
       (tm_inputs t)
       (fold (on_object (\<lambda>ob. ob\<lparr>do_parent := Some (tm_id t)\<rparr>)) (tm_outputs t) s)"

definition add_task :: "task_msg \<Rightarrow> scheduler \<times> nat list \<Rightarrow> error + scheduler \<times> nat list" where
  "add_task t sr =
     (case sr of (s, ready) \<Rightarrow>
        if missing_objects (tm_inputs t @ tm_outputs t) s then Inl KeyError
        else
          let task = SchedulerTask_init (tm_id t) (tm_inputs t) (tm_outputs t)
                       (tm_expected_duration t) (tm_cpus t);
              s2 = link_task t s;
              ready1 = (if st_unfinished_inputs task = 0 then ready @ [tm_id t] else ready)
          in Inr (s2\<lparr>sched_tasks := (sched_tasks s2)(tm_id t \<mapsto> task)\<rparr>, ready1))"

fun add_tasks :: "task_msg list \<Rightarrow> scheduler \<times> nat list \<Rightarrow> error + scheduler \<times> nat list" where
  "add_tasks [] sr = Inr sr"
| "add_tasks (t # ts) sr =
     (case add_task t sr of Inl e \<Rightarrow> Inl e | Inr sr' \<Rightarrow> add_tasks ts sr')"

text \<open>
  \<^verbatim>\<open>
    for tu in message.get("tasks_update", ()):
        assert tu["state"] == TaskState.Finished
        task = task_graph.tasks[tu["id"]]
        task.state = TaskState.Finished
        task.computed_by = workers[tu["worker"]]
        finished_tasks.append(task)
        for o in task.outputs:
            for t in o.consumers:
                t.unfinished_inputs -= 1
                if t.unfinished_inputs <= 0:
                    assert t.unfinished_inputs == 0
                    ready_tasks.append(t)
  \<close>
  The inner loops run over the consumers of the outputs, one after the other.
\<close>

fun decrement_consumers :: "nat list \<Rightarrow> scheduler \<times> nat list \<Rightarrow> error + scheduler \<times> nat list" where
  "decrement_consumers [] sr = Inr sr"
| "decrement_consumers (c # cs) sr =
     (case sr of (s, ready) \<Rightarrow>
        (case sched_tasks s c of
           None \<Rightarrow> decrement_consumers cs sr
         | Some t \<Rightarrow>
             let n = st_unfinished_inputs t - 1;
                 s1 = s\<lparr>sched_tasks := (sched_tasks s)(c \<mapsto> t\<lparr>st_unfinished_inputs := n\<rparr>)\<rparr>
             in if n \<le> 0 then
                  if n \<noteq> 0 then Inl AssertionError
                  else decrement_consumers cs (s1, ready @ [c])
                else decrement_consumers cs (s1, ready)))"

definition consumers_of_outputs :: "scheduler \<Rightarrow> nat list \<Rightarrow> nat list" where
  "consumers_of_outputs s outs =
     concat (map (\<lambda>k. case sched_objects s k of None \<Rightarrow> [] | Some ob \<Rightarrow> do_consumers ob) outs)"

definition update_task ::
  "task_update \<Rightarrow> scheduler \<times> nat list \<times> nat list \<Rightarrow> error + scheduler \<times> nat list \<times> nat list" where
  "update_task tu srf =
     (case srf of (s, ready, finished) \<Rightarrow>
        if tu_state tu \<noteq> Finished then Inl AssertionError
        else (case sched_tasks s (tu_id tu) of
           None \<Rightarrow> Inl KeyError
         | Some task \<Rightarrow>
             if sched_workers s (tu_worker tu) = None then Inl KeyError
             else
               let s1 = s\<lparr>sched_tasks := (sched_tasks s)(tu_id tu \<mapsto>
                          task\<lparr>st_state := Finished, computed_by := Some (tu_worker tu)\<rparr>)\<rparr>
               in (case decrement_consumers (consumers_of_outputs s1 (st_outputs task)) (s1, ready) of
                     Inl e \<Rightarrow> Inl e
                   | Inr (s2, ready2) \<Rightarrow> Inr (s2, ready2, finished @ [tu_id tu]))))"

fun update_tasks ::
  "task_update list \<Rightarrow> scheduler \<times> nat list \<times> nat list \<Rightarrow> error + scheduler \<times> nat list \<times> nat list" where
  "update_tasks [] srf = Inr srf"
| "update_tasks (tu # tus) srf =
     (case update_task tu srf of Inl e \<Rightarrow> Inl e | Inr srf' \<Rightarrow> update_tasks tus srf')"

text \<open>
  \<^verbatim>\<open>
    for ou in message.get("objects_update", ()):
        o = task_graph.objects[ou["id"]]
        o.placing = [workers[w] for w in ou["placing"]]
        o.availability = [workers[w] for w in ou["availability"]]
        size = ou.get("size")
        if size is not None:
            o.size = size
  \<close>
\<close>

definition missing_workers :: "nat list \<Rightarrow> scheduler \<Rightarrow> bool" where
  "missing_workers ks s = (\<exists>w \<in> set ks. sched_workers s w = None)"

definition update_object :: "object_update \<Rightarrow> scheduler \<Rightarrow> error + scheduler" where
  "update_object ou s =
     (case sched_objects s (ou_id ou) of
        None \<Rightarrow> Inl KeyError
      | Some ob \<Rightarrow>
          if missing_workers (ou_placing ou @ ou_availability ou) s then Inl KeyError
          else
            let ob1 = ob\<lparr>placing := ou_placing ou, availability := ou_availability ou\<rparr>;
                ob2 = (case ou_size ou of None \<Rightarrow> ob1 | Some sz \<Rightarrow> ob1\<lparr>do_size := Some sz\<rparr>)
            in Inr (s\<lparr>sched_objects := (sched_objects s)(ou_id ou \<mapsto> ob2)\<rparr>))"

fun update_objects :: "object_update list \<Rightarrow> scheduler \<Rightarrow> error + scheduler" where
  "update_objects [] s = Inr s"
| "update_objects (ou # ous) s =
     (case update_object ou s of Inl e \<Rightarrow> Inl e | Inr s' \<Rightarrow> update_objects ous s')"

text \<open>
  \<open>_process_update\<close>. The method \<open>schedule\<close> is the scheduling policy, overridden by every
  concrete scheduler (\<open>SchedulerBase.schedule\<close> itself raises \<open>NotImplementedError\<close>); it
  is the parameter \<open>policy\<close>, which receives the \<open>Update\<close> and acts on the mirror. The
  result is the mirror and the reply \<^verbatim>\<open>list(self.assignments.values())\<close>.
\<close>

definition process_update ::
  "(Update \<Rightarrow> scheduler \<Rightarrow> error + scheduler) \<Rightarrow> message \<Rightarrow> scheduler \<Rightarrow>
     error + scheduler \<times> assignment list" where
  "process_update policy m s =
     (case register_workers (new_workers m) s of
        Inl e \<Rightarrow> Inl e
      | Inr s1 \<Rightarrow>
          (case update_bandwidth (msg_network_bandwidth m) s1 of (s2, network_update) \<Rightarrow>
             (case add_tasks (new_tasks m) (add_objects (new_objects m) s2, []) of
                Inl e \<Rightarrow> Inl e
              | Inr (s4, ready) \<Rightarrow>
                  (case update_tasks (tasks_update m) (s4, ready, []) of
                     Inl e \<Rightarrow> Inl e
                   | Inr (s5, ready5, finished) \<Rightarrow>
                       (case update_objects (objects_update m) s5 of
                          Inl e \<Rightarrow> Inl e
                        | Inr s6 \<Rightarrow>
                            (case policy
                                    \<lparr>u_new_workers = map wm_id (new_workers m),
                                     u_network_update = network_update,
                                     u_new_objects = map om_id (new_objects m),
                                     u_new_tasks = map tm_id (new_tasks m),
                                     u_new_ready_tasks = ready5,
                                     u_new_finished_tasks = finished\<rparr>
                                    (s6\<lparr>assignments := Some []\<rparr>) of
                               Inl e \<Rightarrow> Inl e
                             | Inr s7 \<Rightarrow>
                                 (case assignments s7 of
                                    None \<Rightarrow> Inl AttributeError
                                  | Some d \<Rightarrow> Inr (s7, map snd d))))))))"

text \<open>\<open>send_message\<close>: only the message type \<open>"update"\<close> is known.\<close>

definition send_message ::
  "(Update \<Rightarrow> scheduler \<Rightarrow> error + scheduler) \<Rightarrow> message \<Rightarrow> scheduler \<Rightarrow>
     error + scheduler \<times> assignment list" where
  "send_message policy m s =
     (if msg_type m = ''update'' then process_update policy m s else Inl UnknownMessageType)"




subsection \<open>Concrete scheduler inputs\<close>

text \<open>
  The first update of the test \<open>test_simulator_local_reassign\<close>: three workers with one
  cpu each, the tasks A0 and A1 with one output of size 1 each, and the task A2 reading
  both, with one output of size 10. The scheduler of that test assigns A2 to worker 1
  and then, in the same \<open>schedule\<close> call, to worker 2.
\<close>

definition local_reassign_message :: message where
  "local_reassign_message =
     \<lparr>msg_type = ''update'',
      new_workers = [\<lparr>wm_id = 0, wm_cpus = 1\<rparr>, \<lparr>wm_id = 1, wm_cpus = 1\<rparr>,
                     \<lparr>wm_id = 2, wm_cpus = 1\<rparr>],
      msg_network_bandwidth = Some 1,
      new_objects = [\<lparr>om_id = 0, om_expected_size = Some 1, om_size = Some 1\<rparr>,
                     \<lparr>om_id = 1, om_expected_size = Some 1, om_size = Some 1\<rparr>,
                     \<lparr>om_id = 2, om_expected_size = Some 10, om_size = Some 10\<rparr>],
      new_tasks = [\<lparr>tm_id = 0, tm_inputs = [], tm_outputs = [0],
                    tm_expected_duration = None, tm_cpus = 1\<rparr>,
                   \<lparr>tm_id = 1, tm_inputs = [], tm_outputs = [1],
                    tm_expected_duration = None, tm_cpus = 1\<rparr>,
                   \<lparr>tm_id = 2, tm_inputs = [1, 0], tm_outputs = [2],
                    tm_expected_duration = None, tm_cpus = 1\<rparr>],
      tasks_update = [],
      objects_update = []\<rparr>"

definition local_reassign_policy :: "Update \<Rightarrow> scheduler \<Rightarrow> error + scheduler" where
  "local_reassign_policy u s =
     assign_all [(Some 1, 2, None, None), (Some 2, 2, None, None)] s"










text \<open>The result of the first update of \<open>test_simulator_local_reassign\<close>.\<close>

definition local_reassign_result :: "error + scheduler \<times> assignment list" where
  "local_reassign_result =
     send_message local_reassign_policy local_reassign_message (SchedulerBase_init True)"

section \<open>The accessor \<open>Task.output\<close>\<close>

text \<open>
  Claim C9. For every task, \<open>output\<close> returns the only element of \<open>outputs\<close> when there
  is exactly one, and raises both when there is none and when there are two or more.
  The accessor is a function of the task alone: it returns no new task, so no field
  can change.
\<close>

theorem output_unique_or_raises:
  "(outputs t = [o1] \<longrightarrow> output_t t = Inr o1) \<and>
   (outputs t = [] \<longrightarrow> output_t t = Inl TaskHasNoOutput) \<and>
   (length (outputs t) \<ge> 2 \<longrightarrow> output_t t = Inl TaskHasNoUniqueOutput) \<and>
   (\<forall>r. output_t t = Inr r \<longrightarrow> outputs t = [r])"
proof (intro conjI allI impI)
  fix r assume "output_t t = Inr r"
  then have "outputs t \<noteq> []" and "\<not> length (outputs t) > 1" and "r = outputs t ! 0"
    by (auto simp: output_t_def split: if_splits)
  then show "outputs t = [r]"
    by (cases "outputs t") auto
qed (auto simp: output_t_def)

theorem output_unique_or_raises_witness:
  "output_t \<lparr>inputs = [], outputs = [7], duration = 1, expected_duration = None,
           name = None, task_id = Some 0, cpus = 1\<rparr> = Inr 7 \<and>
   output_t \<lparr>inputs = [], outputs = [], duration = 1, expected_duration = None,
           name = None, task_id = Some 0, cpus = 1\<rparr> = Inl TaskHasNoOutput \<and>
   output_t \<lparr>inputs = [], outputs = [7, 8], duration = 1, expected_duration = None,
           name = None, task_id = Some 0, cpus = 1\<rparr> = Inl TaskHasNoUniqueOutput"
  using output_unique_or_raises [of "\<lparr>inputs = [], outputs = [7], duration = 1,
           expected_duration = None, name = None, task_id = Some 0, cpus = 1\<rparr>" 7]
        output_unique_or_raises [of "\<lparr>inputs = [], outputs = [], duration = 1,
           expected_duration = None, name = None, task_id = Some 0, cpus = 1\<rparr>" 7]
        output_unique_or_raises [of "\<lparr>inputs = [], outputs = [7, 8], duration = 1,
           expected_duration = None, name = None, task_id = Some 0, cpus = 1\<rparr>" 7]
  by simp

section \<open>Properties of \<open>Task.normalize\<close>\<close>

lemma sorted_key_unique:
  assumes "inj_on k (set xs)" "set ys = set xs" "distinct xs" "distinct ys"
    "sorted (map k xs)" "sorted (map k ys)"
  shows "ys = xs"
proof -
  have i: "inj_on k (set ys \<union> set xs)" using assms(1,2) by simp
  have "distinct (map k xs)" "distinct (map k ys)"
    using assms by (simp_all add: distinct_map)
  moreover have "set (map k ys) = set (map k xs)" using assms(2) by simp
  ultimately have "map k ys = map k xs"
    using assms(5,6) by (intro sorted_distinct_set_unique) auto
  with i show ?thesis by (simp add: inj_on_map_eq_map)
qed

text \<open>
  Claim C10, as stated, fails for a task whose input objects have no id yet: the sort
  compares \<open>None\<close> with \<open>None\<close> and raises \<open>TypeError\<close>, and the inputs stay as they were.
\<close>

theorem normalize_unregistered_inputs_raises:
  "normalize remdups unregistered_inputs_heap 0 = Inl TypeError"
  by (simp add: normalize_def unregistered_inputs_heap_def task_of_def out_of_def)

text \<open>
  Two different input objects with the same id keep, after the stable sort, the order
  in which the set was iterated, and that order may differ from call to call: with an
  iteration that lists the elements from the last to the first, the second call undoes
  the first.
\<close>

lemma normalize_equal_ids_order_dependent:
  "set_iteration (rev \<circ> remdups :: oref list \<Rightarrow> oref list) \<and>
   map_sum id (\<lambda>h. inputs (task_of h 1)) (normalize (rev \<circ> remdups) equal_ids_heap 1) =
     Inr [1, 0] \<and>
   map_sum id (\<lambda>h. inputs (task_of h 1))
     (normalize (rev \<circ> remdups) (projr (normalize (rev \<circ> remdups) equal_ids_heap 1)) 1) =
     Inr [0, 1]"
  by (simp add: set_iteration_def normalize_def equal_ids_heap_def task_of_def out_of_def
        sort_key_of_def Let_def)

text \<open>
  Claim C10, amended. Let every input object of the task carry an id, different objects
  different ids (as the objects registered in one graph do), and let \<open>list(set(...))\<close>
  list the distinct elements in any order. Then \<open>normalize\<close> returns; afterwards the
  inputs hold each input object once, in ascending order of the ids, and the same set of
  objects as before; a second call returns and leaves the store as it is; and the first
  call changes nothing but the \<open>inputs\<close> of that task.
\<close>

theorem normalize_idempotent:
  assumes ord: "set_iteration set_order"
    and t: "t < length (tasks_h h)"
    and ids: "\<forall>o' \<in> set (inputs (task_of h t)). output_id (out_of h o') \<noteq> None"
    and dist: "distinct (map (\<lambda>o'. output_id (out_of h o')) (remdups (inputs (task_of h t))))"
  shows "\<exists>h'. normalize set_order h t = Inr h' \<and>
           distinct (inputs (task_of h' t)) \<and>
           sorted (map (sort_key_of h') (inputs (task_of h' t))) \<and>
           set (inputs (task_of h' t)) = set (inputs (task_of h t)) \<and>
           normalize set_order h' t = Inr h' \<and>
           task_of h' t = (task_of h t)\<lparr>inputs := inputs (task_of h' t)\<rparr> \<and>
           (\<forall>u. u \<noteq> t \<longrightarrow> task_of h' u = task_of h u) \<and>
           outputs_h h' = outputs_h h"
proof -
  from dist have inj: "inj_on (\<lambda>o'. output_id (out_of h o')) (set (inputs (task_of h t)))"
    by (simp add: distinct_map)
  define xs where "xs = set_order (inputs (task_of h t))"
  define ys where "ys = sort_key (sort_key_of h) xs"
  define h' where "h' = h\<lparr>tasks_h := (tasks_h h)[t := (task_of h t)\<lparr>inputs := ys\<rparr>]\<rparr>"
  from ord have xs: "distinct xs" "set xs = set (inputs (task_of h t))"
    by (simp_all add: xs_def set_iteration_def)
  have no_none: "\<not> (\<exists>o' \<in> set zs. output_id (out_of h o') = None)"
    if "set zs = set (inputs (task_of h t))" for zs
    using ids that by simp
  have first: "normalize set_order h t = Inr h'"
    using no_none[OF xs(2)] by (simp add: normalize_def xs_def[symmetric] ys_def h'_def Let_def)
  have in': "inputs (task_of h' t) = ys" and tk: "task_of h' t = (task_of h t)\<lparr>inputs := ys\<rparr>"
    using t by (simp_all add: h'_def task_of_def)
  have others: "\<forall>u. u \<noteq> t \<longrightarrow> task_of h' u = task_of h u"
    by (simp add: h'_def task_of_def)
  have outs: "outputs_h h' = outputs_h h" by (simp add: h'_def)
  then have key: "sort_key_of h' = sort_key_of h" "out_of h' = out_of h"
    by (auto simp: sort_key_of_def out_of_def fun_eq_iff)
  have ys: "distinct ys" "set ys = set (inputs (task_of h t))"
    "sorted (map (sort_key_of h) ys)"
    using xs by (simp_all add: ys_def sorted_sort_key)
  define zs where "zs = set_order ys"
  from ord have zs: "distinct zs" "set zs = set ys"
    by (simp_all add: zs_def set_iteration_def)
  have kinj: "inj_on (sort_key_of h) (set ys)"
  proof (rule inj_onI)
    fix a b assume a: "a \<in> set ys" and b: "b \<in> set ys"
      and e: "sort_key_of h a = sort_key_of h b"
    from a b ids ys(2) have "output_id (out_of h a) \<noteq> None" "output_id (out_of h b) \<noteq> None"
      by auto
    then obtain i j where "output_id (out_of h a) = Some i"
      "output_id (out_of h b) = Some j" by auto
    with e have "output_id (out_of h a) = output_id (out_of h b)"
      by (simp add: sort_key_of_def)
    with inj a b ys(2) show "a = b" by (auto dest: inj_onD)
  qed
  have "sort_key (sort_key_of h) zs = ys"
  proof (rule sorted_key_unique[OF kinj])
    show "set (sort_key (sort_key_of h) zs) = set ys" using zs by simp
    show "distinct ys" by (rule ys(1))
    show "distinct (sort_key (sort_key_of h) zs)" using zs by simp
    show "sorted (map (sort_key_of h) ys)" by (rule ys(3))
    show "sorted (map (sort_key_of h) (sort_key (sort_key_of h) zs))" by (rule sorted_sort_key)
  qed
  moreover have "h'\<lparr>tasks_h := (tasks_h h')[t := (task_of h' t)\<lparr>inputs := ys\<rparr>]\<rparr> = h'"
    using t by (simp add: h'_def task_of_def)
  ultimately have second: "normalize set_order h' t = Inr h'"
    using no_none[of zs] zs ys
    by (simp add: normalize_def in' zs_def[symmetric] key Let_def)
  show ?thesis
    using first second ys others outs tk by (auto simp: in' key)
qed

theorem normalize_idempotent_witness:
  "normalize remdups unsorted_inputs_heap 1 = Inr sorted_inputs_heap \<and>
   normalize remdups sorted_inputs_heap 1 = Inr sorted_inputs_heap \<and>
   inputs (task_of unsorted_inputs_heap 1) = [1, 0, 1] \<and>
   inputs (task_of sorted_inputs_heap 1) = [0, 1]"
proof -
  have a: "set_iteration (remdups :: oref list \<Rightarrow> oref list)" by (simp add: set_iteration_def)
  have b: "1 < length (tasks_h unsorted_inputs_heap)" by (simp add: unsorted_inputs_heap_def)
  have c: "\<forall>o' \<in> set (inputs (task_of unsorted_inputs_heap 1)).
             output_id (out_of unsorted_inputs_heap o') \<noteq> None"
    by (simp add: unsorted_inputs_heap_def task_of_def out_of_def)
  have d: "distinct (map (\<lambda>o'. output_id (out_of unsorted_inputs_heap o'))
             (remdups (inputs (task_of unsorted_inputs_heap 1))))"
    by (simp add: unsorted_inputs_heap_def task_of_def out_of_def)
  have e: "normalize remdups unsorted_inputs_heap 1 = Inr sorted_inputs_heap"
    by (simp add: normalize_def unsorted_inputs_heap_def sorted_inputs_heap_def task_of_def
          out_of_def sort_key_of_def Let_def)
  have f: "inputs (task_of unsorted_inputs_heap 1) = [1, 0, 1]"
     "inputs (task_of sorted_inputs_heap 1) = [0, 1]"
    by (simp_all add: unsorted_inputs_heap_def sorted_inputs_heap_def task_of_def)
  from normalize_idempotent [OF a b c d] show ?thesis
    using e f by simp
qed

section \<open>Properties of the simulator\<close>

subsection \<open>The history of assigned workers\<close>

lemma schedule_one_info_other:
  "schedule_one f s (w, t) = r \<Longrightarrow> t' \<noteq> t \<Longrightarrow> info (final r) t' = info s t'"
  by (auto simp: schedule_one_def final_def Let_def split: option.splits if_splits sum.splits)

lemma schedule_one_workers_of:
  "schedule_one f s (w, t) = Inr s' \<Longrightarrow>
     workers_of s' t = workers_of s t @ [w] \<and> (\<forall>t'. t' \<noteq> t \<longrightarrow> workers_of s' t' = workers_of s t')"
  by (auto simp: schedule_one_def workers_of_def Let_def split: option.splits if_splits sum.splits)

lemma schedule_one_extends:
  "\<exists>ys. workers_of (final (schedule_one f s a)) t = workers_of s t @ ys"
  by (cases a) (auto simp: schedule_one_def workers_of_def final_def Let_def split: option.splits if_splits sum.splits)

lemma schedule_extends:
  "\<exists>ys. workers_of (final (schedule f s as)) t = workers_of s t @ ys"
proof (induction as arbitrary: s)
  case Nil
  then show ?case by (simp add: final_def)
next
  case (Cons a as)
  show ?case
  proof (cases "schedule_one f s a")
    case (Inl x)
    with schedule_one_extends[of f s a t] show ?thesis by simp
  next
    case (Inr s')
    with schedule_one_extends[of f s a t] obtain ys where 1: "workers_of s' t = workers_of s t @ ys"
      by (auto simp: final_def)
    from Cons.IH[of s'] obtain zs where "workers_of (final (schedule f s' as)) t = workers_of s' t @ zs"
      by blast
    with 1 Inr show ?thesis by simp
  qed
qed

lemma notify_consumers_workers:
  "workers_of (final (notify_consumers s cs)) t = workers_of s t"
proof (induction cs arbitrary: s)
  case Nil
  then show ?case by (simp add: final_def)
next
  case (Cons c cs)
  show ?case
  proof (cases "info s c")
    case None
    then show ?thesis by (simp add: final_def)
  next
    case (Some ci)
    define s1 where "s1 = s\<lparr>info := (info s)(c \<mapsto> ci\<lparr>unfinished_inputs := unfinished_inputs ci - 1\<rparr>)\<rparr>"
    define s2 where "s2 = s1\<lparr>info := (info s1)(c \<mapsto> ci\<lparr>unfinished_inputs := unfinished_inputs ci - 1, state := Ready\<rparr>),
                          new_ready := new_ready s1 @ [c]\<rparr>"
    have w1: "workers_of s1 t = workers_of s t"
      using Some by (simp add: s1_def workers_of_def)
    have w2: "workers_of s2 t = workers_of s t"
      using Some by (simp add: s2_def s1_def workers_of_def)
    have "notify_consumers s (c # cs) = Inl (InvalidUnfinishedInputs (unfinished_inputs ci - 1) c, s1)
        \<or> notify_consumers s (c # cs) = Inl (AssertionError, s1)
        \<or> notify_consumers s (c # cs) = notify_consumers s2 cs
        \<or> notify_consumers s (c # cs) = notify_consumers s1 cs"
      using Some by (simp add: Let_def s1_def s2_def)
    then show ?thesis
      using w1 w2 Cons.IH[of s1] Cons.IH[of s2] by (auto simp: final_def)
  qed
qed

lemma on_task_finished_workers:
  "workers_of (final (on_task_finished h s w t')) t = workers_of s t"
proof (cases "info s t'")
  case None
  then show ?thesis by (simp add: on_task_finished_def final_def)
next
  case (Some i)
  define s1 where "s1 = s\<lparr>info := (info s)(t' \<mapsto> i\<lparr>state := Finished\<rparr>),
                       new_finished := new_finished s @ [t'],
                       unprocessed_tasks := unprocessed_tasks s - 1\<rparr>"
  have w1: "workers_of s1 t = workers_of s t"
    using Some by (simp add: s1_def workers_of_def)
  have w2: "workers_of (final (notify_consumers s1 (task_consumers h t'))) t = workers_of s t"
    using notify_consumers_workers[of s1 "task_consumers h t'" t] w1 by simp
  show ?thesis
  proof (cases "state i \<noteq> Assigned \<or> w \<notin> set (assigned_workers i)")
    case True
    then show ?thesis using Some by (auto simp: on_task_finished_def final_def)
  next
    case False
    then have eq: "on_task_finished h s w t' =
       (case notify_consumers s1 (task_consumers h t') of
                  Inl x \<Rightarrow> Inl x
                | Inr s2 \<Rightarrow>
                    (case wakeup_event s2 of
                       None \<Rightarrow> Inl (AttributeError, s2)
                     | Some triggered \<Rightarrow> Inr (s2\<lparr>wakeup_event := Some True\<rparr>)))"
      using Some by (simp add: on_task_finished_def s1_def Let_def)
    show ?thesis
      using w2 unfolding eq
      by (auto simp: final_def workers_of_def split: sum.splits option.splits)
  qed
qed

lemma step_extends:
  "\<exists>ys. workers_of (final (step f h s e)) t = workers_of s t @ ys"
proof (cases e)
  case (Schedule as)
  then show ?thesis using schedule_extends[of f s as t] by simp
next
  case (TaskFinished w t')
  then show ?thesis using on_task_finished_workers[of h s w t' t] by simp
qed

lemma run_events_extends:
  "\<exists>ys. workers_of (final (run_events f h s es)) t = workers_of s t @ ys"
proof (induction es arbitrary: s)
  case Nil
  then show ?case by (simp add: final_def)
next
  case (Cons e es)
  show ?case
  proof (cases "step f h s e")
    case (Inl x)
    with step_extends[of f h s e t] show ?thesis by simp
  next
    case (Inr s')
    with step_extends[of f h s e t] obtain ys where 1: "workers_of s' t = workers_of s t @ ys"
      by (auto simp: final_def)
    from Cons.IH[of s'] obtain zs where "workers_of (final (run_events f h s' es)) t = workers_of s' t @ zs"
      by blast
    with 1 Inr show ?thesis by simp
  qed
qed

lemma schedule_one_finished_kept:
  "info s t = Some i \<Longrightarrow> state i = Finished \<Longrightarrow> info (final (schedule_one f s a)) t = Some i"
  by (cases a) (auto simp: schedule_one_def final_def Let_def split: option.splits sum.splits)

lemma schedule_finished_kept:
  "info s t = Some i \<Longrightarrow> state i = Finished \<Longrightarrow> info (final (schedule f s as)) t = Some i"
proof (induction as arbitrary: s)
  case Nil
  then show ?case by (simp add: final_def)
next
  case (Cons a as)
  show ?case
  proof (cases "schedule_one f s a")
    case (Inl x)
    with schedule_one_finished_kept[OF Cons.prems, of f a] show ?thesis by simp
  next
    case (Inr s')
    with schedule_one_finished_kept[OF Cons.prems, of f a] have "info s' t = Some i"
      by (simp add: final_def)
    from Cons.IH[OF this Cons.prems(2)] Inr show ?thesis by simp
  qed
qed

lemma schedule_one_finished_raises:
  "info s t = Some i \<Longrightarrow> state i = Finished \<Longrightarrow>
     schedule_one f s (w, t) = Inl (AssignFinishedTask t, s)"
  by (simp add: schedule_one_def)

lemma schedule_append:
  "schedule f s pre = Inr s1 \<Longrightarrow> schedule f s (pre @ post) = schedule f s1 post"
  by (induction pre arbitrary: s) (auto split: sum.splits)

lemma schedule_finished_raises:
  "info s t = Some i \<Longrightarrow> state i = Finished \<Longrightarrow> (w, t) \<in> set as \<Longrightarrow>
     \<exists>e s'. schedule f s as = Inl (e, s')"
proof (induction as arbitrary: s)
  case Nil
  then show ?case by simp
next
  case (Cons a as)
  show ?case
  proof (cases "schedule_one f s a")
    case (Inl x)
    then show ?thesis by (cases x) simp
  next
    case (Inr s')
    with schedule_one_finished_kept[OF Cons.prems(1,2), of f a] have k: "info s' t = Some i"
      by (simp add: final_def)
    have "a \<noteq> (w, t)"
      using Inr schedule_one_finished_raises[OF Cons.prems(1,2), of f w] by auto
    with Cons.prems(3) have "(w, t) \<in> set as" by simp
    from Cons.IH[OF k Cons.prems(2) this] Inr show ?thesis by simp
  qed
qed

lemma schedule_appends:
  "schedule f s as = Inr s' \<Longrightarrow>
     workers_of s' t = workers_of s t @ map fst (filter (\<lambda>a. snd a = t) as)"
proof (induction as arbitrary: s)
  case Nil
  then show ?case by simp
next
  case (Cons a as)
  obtain w u where a: "a = (w, u)" by (cases a)
  from Cons.prems obtain s1 where 1: "schedule_one f s a = Inr s1" and 2: "schedule f s1 as = Inr s'"
    by (auto split: sum.splits)
  from schedule_one_workers_of[OF 1[unfolded a]]
  have "workers_of s1 t = workers_of s t @ (if u = t then [w] else [])" by auto
  with Cons.IH[OF 2] a show ?case by auto
qed

text \<open>
  Claim C4. When the scheduler returns an assignment of a task that is \<open>Finished\<close>, the
  schedule step raises the error "Scheduler tries to assign a finished task", and it
  raises before it changes anything for that assignment: processing the pair alone
  leaves the whole simulator state as it was; in a longer list the state when the error
  is raised is the state the preceding assignments produced, so the worker store holds
  nothing for the finished task; and wherever the finished task occurs in the list, the
  call raises and the runtime record of the finished task (state, assigned workers) is
  the one it had before the call.
\<close>

theorem schedule_finished_task_raises:
  assumes "info s t = Some i" and "state i = Finished"
  shows "schedule_one f s (w, t) = Inl (AssignFinishedTask t, s) \<and>
         (schedule f s pre = Inr s1 \<longrightarrow>
            schedule f s (pre @ (w, t) # post) = Inl (AssignFinishedTask t, s1) \<and>
            info s1 t = Some i) \<and>
         ((w, t) \<in> set as \<longrightarrow>
            (\<exists>e s'. schedule f s as = Inl (e, s') \<and> info s' t = Some i))"
proof (intro conjI impI)
  show "schedule_one f s (w, t) = Inl (AssignFinishedTask t, s)"
    using assms by (rule schedule_one_finished_raises)
next
  assume p: "schedule f s pre = Inr s1"
  with schedule_finished_kept[OF assms, of f pre] show k: "info s1 t = Some i"
    by (simp add: final_def)
  show "schedule f s (pre @ (w, t) # post) = Inl (AssignFinishedTask t, s1)"
    using schedule_append[OF p, of "(w, t) # post"]
          schedule_one_finished_raises[OF k assms(2), of f w] by simp
next
  assume "(w, t) \<in> set as"
  from schedule_finished_raises[OF assms this, of f] obtain e s' where
    r: "schedule f s as = Inl (e, s')" by blast
  with schedule_finished_kept[OF assms, of f as] have "info s' t = Some i"
    by (simp add: final_def)
  with r show "\<exists>e s'. schedule f s as = Inl (e, s') \<and> info s' t = Some i" by blast
qed

theorem schedule_finished_task_raises_witness:
  "info finished_sim 0 = Some finished_info \<and> state finished_info = Finished \<and>
   schedule_one queue_assign_task finished_sim (5, 0) = Inl (AssignFinishedTask 0, finished_sim) \<and>
   schedule queue_assign_task finished_sim [(5, 1)] = Inr assigned_sim \<and>
   schedule queue_assign_task finished_sim [(5, 1), (5, 0)] = Inl (AssignFinishedTask 0, assigned_sim) \<and>
   workers assigned_sim 5 = [1] \<and>
   info assigned_sim 0 = Some finished_info"
proof -
  have a: "info finished_sim 0 = Some finished_info"
    by (simp add: finished_sim_def)
  have b: "state finished_info = Finished"
    by (simp add: finished_info_def)
  have c: "schedule queue_assign_task finished_sim [(5, 1)] = Inr assigned_sim"
    by (simp add: finished_sim_def assigned_sim_def schedule_one_def queue_assign_task_def)
  have d: "workers assigned_sim 5 = [1]"
    by (simp add: assigned_sim_def)
  from schedule_finished_task_raises [OF a b, of queue_assign_task 5 "[(5, 1)]" assigned_sim "[]" "[(5, 1), (5, 0)]"]
  show ?thesis using a b c d by simp
qed

text \<open>
  Claim C5. \<open>assigned_workers\<close> is an append-only history. An accepted assignment of a
  task appends exactly its worker, which is then the last entry, and leaves the lists of
  all other tasks alone; a schedule call that returns has appended, for every task, the
  workers of its assignments in the order of the list; \<open>on_task_finished\<close> changes no
  list; and over any sequence of calls, whether it ends normally or by an error, the old
  list is an initial segment of the new one.
\<close>

theorem assigned_workers_append_only:
  "(schedule_one f s (w, t) = Inr s' \<longrightarrow>
      workers_of s' t = workers_of s t @ [w] \<and> last (workers_of s' t) = w \<and>
      (\<forall>u. u \<noteq> t \<longrightarrow> workers_of s' u = workers_of s u)) \<and>
   (schedule f s as = Inr s' \<longrightarrow>
      workers_of s' t = workers_of s t @ map fst (filter (\<lambda>a. snd a = t) as)) \<and>
   workers_of (final (on_task_finished h s w u)) t = workers_of s t \<and>
   (\<exists>ys. workers_of (final (run_events f h s es)) t = workers_of s t @ ys)"
proof (intro conjI impI)
  assume a: "schedule_one f s (w, t) = Inr s'"
  from schedule_one_workers_of[OF a]
  show "workers_of s' t = workers_of s t @ [w]"
    and "\<forall>u. u \<noteq> t \<longrightarrow> workers_of s' u = workers_of s u" by auto
  then show "last (workers_of s' t) = w" by simp
next
  assume "schedule f s as = Inr s'"
  then show "workers_of s' t = workers_of s t @ map fst (filter (\<lambda>a. snd a = t) as)"
    by (rule schedule_appends)
next
  show "workers_of (final (on_task_finished h s w u)) t = workers_of s t"
    by (rule on_task_finished_workers)
next
  show "\<exists>ys. workers_of (final (run_events f h s es)) t = workers_of s t @ ys"
    by (rule run_events_extends)
qed

theorem assigned_workers_append_only_witness:
  "schedule_one queue_assign_task assigned_sim (2, 1) = Inr reassigned_sim \<and>
   schedule queue_assign_task finished_sim [(5, 1), (2, 1)] = Inr reassigned_sim \<and>
   workers_of assigned_sim 1 = [5] \<and>
   workers_of reassigned_sim 1 = [5, 2] \<and>
   last (workers_of reassigned_sim 1) = 2 \<and>
   workers_of reassigned_sim 0 = [3]"
proof -
  have a: "schedule_one queue_assign_task assigned_sim (2, 1) = Inr reassigned_sim"
    by (simp add: finished_sim_def assigned_sim_def reassigned_sim_def schedule_one_def queue_assign_task_def)
  have b: "schedule queue_assign_task finished_sim [(5, 1), (2, 1)] = Inr reassigned_sim"
    by (simp add: finished_sim_def assigned_sim_def reassigned_sim_def schedule_one_def queue_assign_task_def)
  have c: "workers_of assigned_sim 1 = [5]" "workers_of assigned_sim 0 = [3]"
    by (simp_all add: finished_sim_def finished_info_def assigned_sim_def workers_of_def)
  from assigned_workers_append_only [of queue_assign_task assigned_sim 2 1 reassigned_sim "[]" single_task 0 "[]"]
  show ?thesis using a b c by simp
qed

subsection \<open>The task states\<close>

text \<open>
  Claim C1 (the code differs). The enumeration \<open>TaskState\<close> of the simulator has the four
  members \<open>Waiting\<close>, \<open>Ready\<close>, \<open>Assigned\<close>, \<open>Finished\<close> and no member \<open>Running\<close>; the query
  \<open>is_running\<close> raises on every record; and the task of duration 0 of
  \<open>single_task\<close> goes from \<open>Waiting\<close> to \<open>Assigned\<close> when it is scheduled and from
  \<open>Assigned\<close> to \<open>Finished\<close> when its worker reports it, with no state in between.
\<close>

theorem task_state_has_no_running:
  "(\<forall>x::TaskState. x = Waiting \<or> x = Ready \<or> x = Assigned \<or> x = Finished) \<and>
   (\<forall>i. is_running i = Inl AttributeError) \<and>
   map_option state (info (run_init single_task empty_simulator) 0) = Some Waiting \<and>
   map_option state (info (final (schedule queue_assign_task
       (run_init single_task empty_simulator) [(0, 0)])) 0) = Some Assigned \<and>
   map_option state (info (final (on_task_finished single_task
       (final (schedule queue_assign_task
          (run_init single_task empty_simulator) [(0, 0)])) 0 0)) 0) = Some Finished"
proof (intro conjI allI)
  fix x :: TaskState
  show "x = Waiting \<or> x = Ready \<or> x = Assigned \<or> x = Finished"
    by (cases x) simp_all
next
  fix i show "is_running i = Inl AttributeError" by (simp add: is_running_def)
qed (simp_all add: run_init_def single_task_def empty_simulator_def TaskRuntimeInfo_init_def
       schedule_one_def queue_assign_task_def final_def on_task_finished_def task_consumers_def)

subsection \<open>The counter of unfinished inputs\<close>

text \<open>
  Claim C2 (the code differs). In the graph \<open>two_inputs\<close> task 1 reads two objects
  produced by task 0. The run \<open>two_inputs_run\<close> returns without an error; after it task 0
  is \<open>Finished\<close>, so no input of task 1 has an unfinished parent, but the counter
  \<open>unfinished_inputs\<close> of task 1 is 1 and task 1 is still \<open>Waiting\<close>: the counter starts
  at the number of input objects, and the loop over \<open>task.consumers\<close> visits task 1 once,
  not once per input object.
\<close>

theorem unfinished_inputs_two_outputs_of_one_parent:
  "\<not> isl two_inputs_run \<and>
   task_finished (final two_inputs_run) 0 \<and>
   inputs_with_unfinished_parent two_inputs (final two_inputs_run) 1 = 0 \<and>
   map_option unfinished_inputs (info (final two_inputs_run) 1) = Some 1 \<and>
   map_option state (info (final two_inputs_run) 1) = Some Waiting"
proof -
  have c: "task_consumers two_inputs 0 = [1]"
    by (auto simp: task_consumers_def two_inputs_def)
  have g: "graph_tasks two_inputs = [0, 1]" "task_inputs two_inputs 0 = []"
    "task_inputs two_inputs (Suc 0) = [0, 1]" "object_parent two_inputs 0 = Some 0"
    "object_parent two_inputs (Suc 0) = Some 0"
    by (simp_all add: two_inputs_def)
  show ?thesis
    by (simp add: two_inputs_run_def run_init_def empty_simulator_def c g
          TaskRuntimeInfo_init_def schedule_one_def queue_assign_task_def final_def
          on_task_finished_def task_finished_def
          inputs_with_unfinished_parent_def Let_def)
qed

section \<open>Properties of the scheduler mirror\<close>

subsection \<open>Reassignment within one update\<close>

text \<open>
  Claim C3 (the code differs). In the first update of \<open>test_simulator_local_reassign\<close> the
  scheduler assigns task 2 to worker 1 and then to worker 2. The update returns, its
  reply holds one record for task 2, the one of the last assignment, and
  \<open>scheduled_worker\<close> of task 2 is worker 2; but the \<open>scheduled\<close> sets of the two inputs
  and of the output of task 2 hold worker 1 as well as worker 2: \<open>assign\<close> adds the new
  worker and never removes the worker of the assignment it replaces.
\<close>

theorem reassign_in_one_update_keeps_first_worker:
  "\<not> isl local_reassign_result \<and>
   snd (projr local_reassign_result) =
     [\<lparr>a_worker = Some 2, a_task = 2, a_priority = None, a_blocking = None\<rparr>] \<and>
   map_option scheduled_worker (sched_tasks (fst (projr local_reassign_result)) 2) =
     Some (Some 2) \<and>
   map_option scheduled (sched_objects (fst (projr local_reassign_result)) 0) =
     Some [Some 1, Some 2] \<and>
   map_option scheduled (sched_objects (fst (projr local_reassign_result)) 1) =
     Some [Some 1, Some 2] \<and>
   map_option scheduled (sched_objects (fst (projr local_reassign_result)) 2) =
     Some [Some 1, Some 2]"
  by (simp add: local_reassign_result_def send_message_def process_update_def
        local_reassign_message_def local_reassign_policy_def SchedulerBase_init_def
        update_bandwidth_def register_worker_def add_object_def add_task_def
        missing_objects_def link_task_def SchedulerTask_init_def
        SchedulerDataObject_init_def on_object_def assign_def set_add_def Let_def)

subsection \<open>The same update, applied twice\<close>

lemma fold_on_object_fields [simp]:
  "sched_workers (fold (on_object f) ks s) = sched_workers s"
  "sched_tasks (fold (on_object f) ks s) = sched_tasks s"
  "network_bandwidth (fold (on_object f) ks s) = network_bandwidth s"
  "assignments (fold (on_object f) ks s) = assignments s"
  "reassigning (fold (on_object f) ks s) = reassigning s"
  by (induction ks arbitrary: s; simp add: on_object_def split: option.splits)+

lemma fold_on_object_dom [simp]:
  "dom (sched_objects (fold (on_object f) ks s)) = dom (sched_objects s)"
  by (induction ks arbitrary: s) (auto simp: on_object_def split: option.splits)




lemma add_objects_fields [simp]:
  "sched_workers (add_objects obs s) = sched_workers s"
  "sched_tasks (add_objects obs s) = sched_tasks s"
  "network_bandwidth (add_objects obs s) = network_bandwidth s"
  "assignments (add_objects obs s) = assignments s"
  "reassigning (add_objects obs s) = reassigning s"
  by (induction obs arbitrary: s; simp add: add_object_def)+

lemma add_objects_dom [simp]:
  "dom (sched_objects (add_objects obs s)) = dom (sched_objects s) \<union> om_id ` set obs"
  by (induction obs arbitrary: s) (auto simp: add_object_def)


lemma link_task_fields [simp]:
  "sched_workers (link_task t s) = sched_workers s"
  "sched_tasks (link_task t s) = sched_tasks s"
  "network_bandwidth (link_task t s) = network_bandwidth s"
  "assignments (link_task t s) = assignments s"
  "reassigning (link_task t s) = reassigning s"
  "dom (sched_objects (link_task t s)) = dom (sched_objects s)"
  by (simp_all add: link_task_def)

























section \<open>Properties of \<open>TaskGraph.validate\<close>\<close>

subsection \<open>The search of \<open>is_predecessor_of\<close>\<close>







subsection \<open>What \<open>validate\<close> checks\<close>






















section \<open>Properties of \<open>copy\<close>\<close>



lemma offset_0 [simp]: "offset h rs 0 = 0"
  by (simp add: offset_def)

lemma offset_Cons_Suc [simp]:
  "offset h (r # rs) (Suc i) = length (outputs (task_of h r)) + offset h rs i"
  by (simp add: offset_def)







lemma set_set_add [simp]: "set (set_add x xs) = insert x (set xs)"
  by (auto simp: set_add_def)

lemma add_input_lengths [simp]:
  "length (tasks_h (add_input hh t p)) = length (tasks_h hh)"
  "length (outputs_h (add_input hh t p)) = length (outputs_h hh)"
  by (simp_all add: add_input_def)


































end
